theory Spec2Isabelle
  imports Complex_Main "HOL-Library.Word"
begin

section \<open>The audio-to-PDF pipeline of \<^verbatim>\<open>main.py\<close>\<close>

text \<open>
  The repository is one request handler, \<^verbatim>\<open>audio_to_pdf\<close>: it stages the uploaded
  bytes in a temporary file, decodes them with \<^verbatim>\<open>soundfile\<close>, averages the channels,
  feeds the raw bytes of the sample array to a Vosk recogniser, strips the recognised
  text, removes the temporary file and lays the text out with \<^verbatim>\<open>FPDF\<close>.

  The three libraries are not part of the repository. Their calls are parameters of the
  model (the record \<open>env\<close>); every call that can raise returns a sum, \<open>Inl\<close> the exception.
  The file system and the standard output are explicit state (the record \<open>world\<close>).
\<close>

subsection \<open>Data\<close>

type_synonym byte = "8 word"
type_synonym bytes = "byte list"

text \<open>A Python \<^verbatim>\<open>str\<close> is a sequence of Unicode code points.\<close>

type_synonym unicode = "nat list"

type_synonym path = string

definition ustr :: "string \<Rightarrow> unicode" where
  "ustr s = map of_char s"

datatype error =
    DecodeError string
  | RecognitionError string
  | RenderError string
  | FileNotFoundError
  | AxisError
  | AttributeError
  | UnicodeEncodeError nat

text \<open>
  The array \<^verbatim>\<open>sf.read\<close> returns: one-dimensional for a mono file, otherwise
  two-dimensional, of shape (frames, channels), one row per frame. The samples are
  \<^verbatim>\<open>float64\<close>; they are modelled as exact reals, so that the rounding of the
  floating-point sum and quotient is left out.
\<close>

datatype ndarray = Array1 "real list" | Array2 nat "real list list"

fun shape :: "ndarray \<Rightarrow> nat list" where
  "shape (Array1 xs) = [length xs]"
| "shape (Array2 channels rows) = [length rows, channels]"

text \<open>The value of a JSON field: a string, or anything else.\<close>

datatype json = JStr unicode | JOther

record world =
  files :: "path \<rightharpoonup> bytes"
  stdout :: "unicode list"

record response =
  body :: bytes
  media_type :: string
  headers :: "(string \<times> string) list"

text \<open>
  The library calls of the handler.
  \<^item> \<open>sf_read\<close>: \<^verbatim>\<open>sf.read\<close> on the contents of a file: the array and the sample rate.
  \<^item> \<open>float64_bits\<close>: the IEEE-754 binary64 pattern of a sample, as the array holds it.
  \<^item> \<open>vosk\<close>: \<^verbatim>\<open>KaldiRecognizer(vosk_model, samplerate)\<close>, \<^verbatim>\<open>SetWords(True)\<close>,
    \<^verbatim>\<open>AcceptWaveform\<close> on the bytes, and \<^verbatim>\<open>json.loads\<close> of \<^verbatim>\<open>FinalResult()\<close>.
  \<^item> \<open>wrap_lines\<close>: the lines into which \<^verbatim>\<open>multi_cell(0, 10, txt)\<close> breaks a text in
    Arial 12 at the width of the page.
  \<^item> \<open>lines_per_page\<close>: the lines of height 10 a page holds.
  \<^item> \<open>serialize\<close>: the bytes of the PDF document that \<^verbatim>\<open>pdf.output\<close> builds from pages
    of Latin-1 text, or the exception it raises.
  \<^item> \<open>stdout_encodes\<close>: the characters the encoding of \<^verbatim>\<open>sys.stdout\<close> can encode.
\<close>

record env =
  sf_read :: "bytes \<Rightarrow> error + (ndarray \<times> nat)"
  float64_bits :: "real \<Rightarrow> 64 word"
  vosk :: "nat \<Rightarrow> bytes \<Rightarrow> error + (string \<rightharpoonup> json)"
  wrap_lines :: "unicode \<Rightarrow> unicode list"
  lines_per_page :: nat
  serialize :: "unicode list list \<Rightarrow> error + bytes"
  stdout_encodes :: "nat \<Rightarrow> bool"

subsection \<open>Save and load the WAV file\<close>

text \<open>
  \<^verbatim>\<open>with tempfile.NamedTemporaryFile(delete=False, suffix=".wav") as tmp:\<close>
  \<^verbatim>\<open>    tmp.write(await file.read()); tmp_path = tmp.name\<close>
  The name is the operating system's choice, an argument of the model.
\<close>

definition save_wav :: "path \<Rightarrow> bytes \<Rightarrow> world \<Rightarrow> world" where
  "save_wav tmp_path upload w = w\<lparr>files := (files w)(tmp_path \<mapsto> upload)\<rparr>"

text \<open>\<^verbatim>\<open>audio, samplerate = sf.read(tmp_path)\<close>\<close>

definition load_wav :: "env \<Rightarrow> path \<Rightarrow> world \<Rightarrow> error + (ndarray \<times> nat)" where
  "load_wav E tmp_path w =
     (case files w tmp_path of
        None \<Rightarrow> Inl FileNotFoundError
      | Some b \<Rightarrow> sf_read E b)"

text \<open>\<^verbatim>\<open>os.remove(tmp_path)\<close>\<close>

definition os_remove :: "path \<Rightarrow> world \<Rightarrow> world" where
  "os_remove tmp_path w = w\<lparr>files := (files w)(tmp_path := None)\<rparr>"

subsection \<open>Ensure mono\<close>

definition mean :: "real list \<Rightarrow> real" where
  "mean xs = sum_list xs / real (length xs)"

text \<open>\<^verbatim>\<open>audio.mean(axis=1)\<close>: the mean of every row; numpy raises on a 1-D array.\<close>

fun mean_axis1 :: "ndarray \<Rightarrow> error + ndarray" where
  "mean_axis1 (Array2 channels rows) = Inr (Array1 (map mean rows))"
| "mean_axis1 (Array1 xs) = Inl AxisError"

text \<open>\<^verbatim>\<open>if len(audio.shape) == 2: audio = audio.mean(axis=1)\<close>\<close>

definition ensure_mono :: "ndarray \<Rightarrow> error + ndarray" where
  "ensure_mono audio =
     (if length (shape audio) = 2 then mean_axis1 audio else Inr audio)"

text \<open>What a decoded file is: every row of a 2-D array holds one value per channel,
  and there are at least two channels (a mono file is read as a 1-D array).\<close>

fun well_shaped :: "ndarray \<Rightarrow> bool" where
  "well_shaped (Array1 xs) = True"
| "well_shaped (Array2 channels rows) =
     (2 \<le> channels \<and> list_all (\<lambda>r. length r = channels) rows)"



text \<open>A stereo frame, and a stereo array, with left and right exchanged.\<close>

fun swap_lr :: "real list \<Rightarrow> real list" where
  "swap_lr [l, r] = [r, l]"
| "swap_lr fr = fr"

fun swap_channels :: "ndarray \<Rightarrow> ndarray" where
  "swap_channels (Array2 channels rows) = Array2 channels (map swap_lr rows)"
| "swap_channels (Array1 xs) = Array1 xs"

text \<open>\<^verbatim>\<open>sf.read\<close> followed by the mixdown: the normalised buffer and its sample rate.\<close>

definition normalize :: "env \<Rightarrow> path \<Rightarrow> world \<Rightarrow> error + (ndarray \<times> nat)" where
  "normalize E tmp_path w =
     (case load_wav E tmp_path w of
        Inl e \<Rightarrow> Inl e
      | Inr (audio, samplerate) \<Rightarrow>
          (case ensure_mono audio of
             Inl e \<Rightarrow> Inl e
           | Inr audio1 \<Rightarrow> Inr (audio1, samplerate)))"

subsection \<open>Speech recognition\<close>

text \<open>
  \<^verbatim>\<open>audio.tobytes()\<close>: the elements in row-major order, each as the eight bytes of its
  \<^verbatim>\<open>float64\<close> pattern (least significant byte first, the order of the machines the
  application runs on).
\<close>

definition le_bytes :: "64 word \<Rightarrow> bytes" where
  "le_bytes x = map (\<lambda>i. ucast (drop_bit (8 * i) x)) [0..<8]"

fun tobytes :: "env \<Rightarrow> ndarray \<Rightarrow> bytes" where
  "tobytes E (Array1 xs) = concat (map (\<lambda>x. le_bytes (float64_bits E x)) xs)"
| "tobytes E (Array2 channels rows) =
     concat (map (\<lambda>x. le_bytes (float64_bits E x)) (concat rows))"

text \<open>The characters \<^verbatim>\<open>str.strip()\<close> removes: those for which \<^verbatim>\<open>str.isspace\<close> holds.\<close>

definition isspace :: "nat \<Rightarrow> bool" where
  "isspace c \<longleftrightarrow>
     (9 \<le> c \<and> c \<le> 13) \<or> (28 \<le> c \<and> c \<le> 32) \<or> c = 133 \<or> c = 160 \<or> c = 5760 \<or>
     (8192 \<le> c \<and> c \<le> 8202) \<or> c = 8232 \<or> c = 8233 \<or> c = 8239 \<or> c = 8287 \<or>
     c = 12288"

definition strip :: "unicode \<Rightarrow> unicode" where
  "strip s = rev (dropWhile isspace (rev (dropWhile isspace s)))"

text \<open>\<^verbatim>\<open>result.get("text", "")\<close>\<close>

definition dict_get :: "(string \<rightharpoonup> json) \<Rightarrow> string \<Rightarrow> json \<Rightarrow> json" where
  "dict_get d k dflt = (case d k of None \<Rightarrow> dflt | Some v \<Rightarrow> v)"

text \<open>\<^verbatim>\<open>.strip()\<close> on the value of the field: only a string has the method.\<close>

fun json_strip :: "json \<Rightarrow> error + unicode" where
  "json_strip (JStr s) = Inr (strip s)"
| "json_strip JOther = Inl AttributeError"

text \<open>
  \<^verbatim>\<open>recognizer = KaldiRecognizer(vosk_model, samplerate); recognizer.SetWords(True)\<close>
  \<^verbatim>\<open>recognizer.AcceptWaveform(audio.tobytes())\<close>
  \<^verbatim>\<open>result = json.loads(recognizer.FinalResult())\<close>
  \<^verbatim>\<open>text = result.get("text", "").strip()\<close>
\<close>

definition transcribe :: "env \<Rightarrow> ndarray \<Rightarrow> nat \<Rightarrow> error + unicode" where
  "transcribe E audio samplerate =
     (case vosk E samplerate (tobytes E audio) of
        Inl e \<Rightarrow> Inl e
      | Inr result \<Rightarrow> json_strip (dict_get result ''text'' (JStr [])))"

subsection \<open>Create the PDF\<close>

text \<open>\<^verbatim>\<open>text if text else "No speech detected."\<close>: an empty \<^verbatim>\<open>str\<close> is false.\<close>

definition placeholder :: unicode where
  "placeholder = ustr ''No speech detected.''"

definition pdf_text :: "unicode \<Rightarrow> unicode" where
  "pdf_text text = (if text \<noteq> [] then text else placeholder)"

text \<open>
  The page flow of \<^verbatim>\<open>FPDF\<close> is library code, not part of the repository. The next
  five declarations follow the spec of the renderer instead, which lays the text out
  ``into paginated lines using word-wrapping at a fixed page width'' and starts ``a new
  page when vertical space is exhausted''.
\<close>

type_synonym page = "unicode list"

text \<open>Modelled from the spec: the document of the FPDF library (its class is not in
  the repository), as the pages that are full and the page being written.\<close>

record fpdf =
  finished :: "page list"
  current :: page

text \<open>Modelled from the spec: \<^verbatim>\<open>FPDF()\<close> followed by \<^verbatim>\<open>add_page()\<close> (library code
  that is not in the repository): a document of one page without lines.\<close>

definition add_page :: fpdf where
  "add_page = \<lparr>finished = [], current = []\<rparr>"

text \<open>Modelled from the spec: the automatic page break of the FPDF library (not in the
  repository). A line goes on the current page while that page holds fewer lines than
  fit on a page; when the vertical space is exhausted the line opens a new page.\<close>

definition put_line :: "nat \<Rightarrow> fpdf \<Rightarrow> unicode \<Rightarrow> fpdf" where
  "put_line lpp pdf l =
     (if length (current pdf) < lpp
      then pdf\<lparr>current := current pdf @ [l]\<rparr>
      else \<lparr>finished = finished pdf @ [current pdf], current = [l]\<rparr>)"

text \<open>Modelled from the spec: \<^verbatim>\<open>multi_cell\<close> of the FPDF library (not in the
  repository), on the lines the text wraps into: they are written in order.\<close>

fun multi_cell :: "nat \<Rightarrow> fpdf \<Rightarrow> unicode list \<Rightarrow> fpdf" where
  "multi_cell lpp pdf [] = pdf"
| "multi_cell lpp pdf (l # ls) = multi_cell lpp (put_line lpp pdf l) ls"

text \<open>Modelled from the spec: the pages of the document (the library's page table, not
  in the repository), first page first.\<close>

definition pages :: "fpdf \<Rightarrow> page list" where
  "pages pdf = finished pdf @ [current pdf]"

text \<open>The document the handler builds for a text.\<close>

definition layout :: "env \<Rightarrow> unicode \<Rightarrow> fpdf" where
  "layout E text = multi_cell (lines_per_page E) add_page (wrap_lines E (pdf_text text))"

text \<open>\<^verbatim>\<open>str.encode("latin1")\<close>: one byte per code point below 256, and
  \<^verbatim>\<open>UnicodeEncodeError\<close> at the first code point that is not.\<close>

fun encode_latin1 :: "unicode \<Rightarrow> error + bytes" where
  "encode_latin1 [] = Inr []"
| "encode_latin1 (c # cs) =
     (if c < 256
      then (case encode_latin1 cs of Inl e \<Rightarrow> Inl e | Inr bs \<Rightarrow> Inr (of_nat c # bs))
      else Inl (UnicodeEncodeError c))"

text \<open>
  \<^verbatim>\<open>pdf.output(dest="S")\<close> of PyFPDF 1.7, the release whose \<^verbatim>\<open>output\<close> returns the
  \<^verbatim>\<open>str\<close> that the handler goes on to encode (library code, not in the repository).
  Closing the document encodes the content of every page as Latin-1, in page order, with
  the strict error handler: the first character of the pages with a code point of 256 or
  more raises \<^verbatim>\<open>UnicodeEncodeError\<close> inside the library. For Latin-1 pages the result is
  the document's bytes as a \<^verbatim>\<open>str\<close>, one character per byte.
\<close>

definition pdf_output :: "env \<Rightarrow> page list \<Rightarrow> error + unicode" where
  "pdf_output E ps =
     (case find (\<lambda>c. 256 \<le> c) (concat (concat ps)) of
        Some c \<Rightarrow> Inl (UnicodeEncodeError c)
      | None \<Rightarrow>
          (case serialize E ps of
             Inl e \<Rightarrow> Inl e
           | Inr bs \<Rightarrow> Inr (map unat bs)))"

text \<open>
  \<^verbatim>\<open>pdf = FPDF(); pdf.add_page(); pdf.set_font("Arial", size=12)\<close>
  \<^verbatim>\<open>pdf.multi_cell(0, 10, text if text else "No speech detected.")\<close>
  \<^verbatim>\<open>pdf_bytes = io.BytesIO(pdf.output(dest="S").encode("latin1"))\<close>
\<close>

definition create_pdf :: "env \<Rightarrow> unicode \<Rightarrow> error + bytes" where
  "create_pdf E text =
     (case pdf_output E (pages (layout E text)) of
        Inl e \<Rightarrow> Inl e
      | Inr s \<Rightarrow> encode_latin1 s)"

subsection \<open>The handler\<close>

definition streaming_response :: "bytes \<Rightarrow> response" where
  "streaming_response pdf_bytes =
     \<lparr>body = pdf_bytes, media_type = ''application/pdf'',
      headers = [(''Content-Disposition'', ''attachment; filename=transcribed.pdf'')]\<rparr>"

text \<open>
  \<^verbatim>\<open>print(text)\<close>: the text is encoded for \<^verbatim>\<open>sys.stdout\<close> before anything is written;
  the first character the stream cannot encode raises \<^verbatim>\<open>UnicodeEncodeError\<close>.
\<close>

definition print :: "env \<Rightarrow> unicode \<Rightarrow> world \<Rightarrow> error + world" where
  "print E text w =
     (case find (\<lambda>c. \<not> stdout_encodes E c) text of
        Some c \<Rightarrow> Inl (UnicodeEncodeError c)
      | None \<Rightarrow> Inr (w\<lparr>stdout := stdout w @ [text]\<rparr>))"

text \<open>
  The handler, statement by statement. No statement is inside a \<^verbatim>\<open>try\<close>: an
  exception leaves the handler at once, with the world as it is at that point.
\<close>

definition audio_to_pdf :: "env \<Rightarrow> path \<Rightarrow> bytes \<Rightarrow> world \<Rightarrow> world \<times> (error + response)" where
  "audio_to_pdf E tmp_path upload w0 =
     (let w1 = save_wav tmp_path upload w0 in
      case normalize E tmp_path w1 of
        Inl e \<Rightarrow> (w1, Inl e)
      | Inr (audio, samplerate) \<Rightarrow>
          (case transcribe E audio samplerate of
             Inl e \<Rightarrow> (w1, Inl e)
           | Inr text \<Rightarrow>
               (case print E text w1 of
                  Inl e \<Rightarrow> (w1, Inl e)
                | Inr w2 \<Rightarrow>
                    (let w3 = os_remove tmp_path w2 in
                     case create_pdf E text of
                       Inl e \<Rightarrow> (w3, Inl e)
                     | Inr pdf_bytes \<Rightarrow> (w3, Inr (streaming_response pdf_bytes))))))"

subsection \<open>A test double for the libraries\<close>

text \<open>
  Stubs for the library calls, to evaluate the handler on concrete inputs: a decoder that
  rejects an empty file and reads any other as two stereo frames at 16 kHz, the
  \<^verbatim>\<open>float64\<close> patterns of 0.0 and 1.0, a recogniser that hears ``hello world'' at
  16 kHz and rejects any other rate, a page wide enough for any text on one line, 26
  lines to the page, a serialiser that writes the characters of the lines, and a
  standard output in UTF-8, which encodes everything but the surrogates.
\<close>

definition test_env :: env where
  "test_env =
     \<lparr>sf_read = (\<lambda>b. if b = [] then Inl (DecodeError ''no data'')
                       else Inr (Array2 2 [[1, 3], [2, 4]], 16000)),
      float64_bits = (\<lambda>x. if x = 1 then 0x3FF0000000000000 else 0),
      vosk = (\<lambda>samplerate b.
                if samplerate = 16000 then Inr [''text'' \<mapsto> JStr (ustr ''hello world'')]
                else Inl (RecognitionError ''sample rate'')),
      wrap_lines = (\<lambda>t. [t]),
      lines_per_page = 26,
      serialize = (\<lambda>ps. Inr (map of_nat (concat (concat ps)))),
      stdout_encodes = (\<lambda>c. c < 55296 \<or> 57343 < c)\<rparr>"

definition empty_world :: world where
  "empty_world = \<lparr>files = Map.empty, stdout = []\<rparr>"

section \<open>Properties\<close>

subsection \<open>Auxiliary facts\<close>


lemma mean_swap_lr: "mean (swap_lr fr) = mean fr"
  by (cases fr rule: swap_lr.cases) (simp_all add: mean_def add.commute)



lemma load_saved: "load_wav E p (save_wav p up w) = sf_read E up"
  by (simp add: load_wav_def save_wav_def)

lemma normalize_saved:
  "normalize E p (save_wav p up w) =
     (case sf_read E up of
        Inl e \<Rightarrow> Inl e
      | Inr (audio, samplerate) \<Rightarrow>
          (case ensure_mono audio of
             Inl e \<Rightarrow> Inl e
           | Inr audio1 \<Rightarrow> Inr (audio1, samplerate)))"
  by (simp add: normalize_def load_saved)

lemma files_saved: "files (save_wav p up w) p = Some up"
  by (simp add: save_wav_def)

lemma files_removed: "files (os_remove p w) p = None"
  by (simp add: os_remove_def)

lemma print_Inr:
  "print E t w = Inr w2 \<Longrightarrow> w2 = w\<lparr>stdout := stdout w @ [t]\<rparr>"
  by (auto simp: print_def split: option.splits)



lemma strip_whitespace:
  assumes "list_all isspace s"
  shows "strip s = []"
proof -
  from assms have d: "dropWhile isspace s = []"
    by (simp add: list_all_iff)
  show ?thesis unfolding strip_def d by simp
qed

lemma encode_latin1_ok:
  "list_all (\<lambda>c. c < 256) s \<Longrightarrow> encode_latin1 s = Inr (map of_nat s)"
  by (induction s) simp_all

lemma encode_latin1_fails:
  "\<not> list_all (\<lambda>c. c < 256) s \<Longrightarrow>
     \<exists>c. c \<in> set s \<and> 256 \<le> c \<and> encode_latin1 s = Inl (UnicodeEncodeError c)"
proof (induction s)
  case Nil
  then show ?case by simp
next
  case (Cons a s)
  show ?case
  proof (cases "a < 256")
    case False
    then show ?thesis by auto
  next
    case True
    with Cons.prems have "\<not> list_all (\<lambda>c. c < 256) s" by simp
    from Cons.IH [OF this] obtain c where
      "c \<in> set s" "256 \<le> c" "encode_latin1 s = Inl (UnicodeEncodeError c)" by blast
    with True show ?thesis by auto
  qed
qed

lemma encode_latin1_Inr:
  assumes "encode_latin1 s = Inr b"
  shows "list_all (\<lambda>c. c < 256) s \<and> b = map of_nat s"
proof (cases "list_all (\<lambda>c. c < 256) s")
  case True
  with assms encode_latin1_ok [OF True] show ?thesis by simp
next
  case False
  with assms encode_latin1_fails [OF False] show ?thesis by auto
qed

lemma encode_latin1_bytes: "encode_latin1 (map unat (bs :: bytes)) = Inr bs"
proof -
  have "unat b < 256" for b :: byte
    using unsigned_less [of b] by simp
  then have "list_all (\<lambda>c. c < 256) (map unat bs)"
    by (simp add: list_all_iff)
  then show ?thesis
    using encode_latin1_ok [of "map unat bs"] by (simp add: comp_def)
qed

text \<open>The quotient rounded up, on natural numbers.\<close>

lemma ceiling_div_nat:
  assumes "0 < (b::nat)"
  shows "\<lceil>real a / real b\<rceil> = int ((a + b - 1) div b)"
proof -
  define q where "q = (a + b - 1) div b"
  have lo: "q * b \<le> a + b - 1"
    unfolding q_def by simp
  have hi: "a + b - 1 < q * b + b"
    unfolding q_def using assms
    by (metis add.commute mod_less_divisor mod_mult_div_eq mult.commute nat_add_left_cancel_less)
  from hi assms have 1: "a \<le> q * b" by linarith
  from lo assms have 2: "q * b < a + b" by linarith
  have "real a \<le> real (q * b)" using 1 by (simp only: of_nat_le_iff)
  then have up: "real a / real b \<le> of_int (int q)"
    using assms by (simp add: divide_le_eq)
  have "real (q * b) < real (a + b)" using 2 by (simp only: of_nat_less_iff)
  then have "real q * real b - real b < real a" by simp
  then have "(real q - 1) * real b < real a" by (simp add: algebra_simps)
  then have dn: "of_int (int q) - 1 < real a / real b"
    using assms by (simp add: less_divide_eq)
  show ?thesis
    unfolding q_def [symmetric] using dn up by (rule ceiling_unique)
qed

subsection \<open>The page flow\<close>

lemma length_pages_put_line:
  "length (pages (put_line lpp pdf l)) =
     (if length (current pdf) < lpp then length (pages pdf) else Suc (length (pages pdf)))"
  by (simp add: pages_def put_line_def)

lemma current_put_line:
  "length (current (put_line lpp pdf l)) =
     (if length (current pdf) < lpp then Suc (length (current pdf)) else 1)"
  by (simp add: put_line_def)

lemma fits_no_new_page:
  assumes "0 < (n::nat)" and "c \<le> n"
  shows "(c + n - 1) div n - 1 = 0"
proof -
  have "c + n - 1 < 2 * n" using assms by linarith
  then have "(c + n - 1) div n < 2" by (rule less_mult_imp_div_less)
  then show ?thesis by simp
qed

lemma full_page_new_page:
  assumes "0 < (n::nat)"
  shows "(n + Suc m + n - 1) div n - 1 = Suc ((1 + m + n - 1) div n - 1)"
proof -
  have "n + Suc m + n - 1 = (m + n) + n" by simp
  then have 1: "(n + Suc m + n - 1) div n = Suc ((m + n) div n)"
    using assms by simp
  have 2: "(m + n) div n = Suc (m div n)"
    using assms by simp
  have "1 + m + n - 1 = m + n" by simp
  with 1 2 show ?thesis by simp
qed

text \<open>
  Writing \<open>ls\<close> on a document whose current page holds \<open>c\<close> lines opens as many pages
  as \<open>c + length ls\<close> lines need beyond the first.
\<close>

lemma page_count_multi_cell:
  assumes "0 < lpp"
  shows "length (current pdf) \<le> lpp \<Longrightarrow>
         length (pages (multi_cell lpp pdf ls)) =
           length (pages pdf) + ((length (current pdf) + length ls + lpp - 1) div lpp - 1)"
proof (induction ls arbitrary: pdf)
  case Nil
  then show ?case
    using fits_no_new_page [OF assms, of "length (current pdf)"] by simp
next
  case (Cons l ls)
  show ?case
  proof (cases "length (current pdf) < lpp")
    case True
    then show ?thesis using Cons assms
      by (simp add: length_pages_put_line current_put_line)
  next
    case False
    with Cons.prems have eq: "length (current pdf) = lpp" by simp
    have "length (current (put_line lpp pdf l)) \<le> lpp"
      using assms False by (simp add: current_put_line)
    from Cons.IH [OF this] have
      "length (pages (multi_cell lpp pdf (l # ls))) =
         Suc (length (pages pdf)) + ((1 + length ls + lpp - 1) div lpp - 1)"
      using False by (simp add: length_pages_put_line current_put_line)
    also have "\<dots> = length (pages pdf) + ((lpp + Suc (length ls) + lpp - 1) div lpp - 1)"
      using full_page_new_page [OF assms, of "length ls"] by simp
    finally show ?thesis using eq by simp
  qed
qed

lemma page_count_layout:
  assumes "0 < lines_per_page E"
  shows "length (pages (layout E t)) =
     Suc ((length (wrap_lines E (pdf_text t)) + lines_per_page E - 1) div lines_per_page E - 1)"
  using page_count_multi_cell [OF assms, of add_page "wrap_lines E (pdf_text t)"] assms
  by (simp add: layout_def pages_def add_page_def)

lemma multi_cell_fits:
  "length (current pdf) + length ls \<le> lpp \<Longrightarrow>
     multi_cell lpp pdf ls = pdf\<lparr>current := current pdf @ ls\<rparr>"
  by (induction ls arbitrary: pdf) (simp_all add: put_line_def)

subsection \<open>What becomes of the temporary file\<close>

text \<open>
  The handler removes the file after the recogniser has returned and the text is
  printed, and before the PDF is made. When the decoder, the recogniser or
  \<^verbatim>\<open>print\<close> raises, the statement is not reached.
\<close>

lemma temp_file_left_behind:
  assumes "sf_read E upload = Inl e
           \<or> (\<exists>audio samplerate audio1. sf_read E upload = Inr (audio, samplerate)
                 \<and> ensure_mono audio = Inr audio1
                 \<and> (transcribe E audio1 samplerate = Inl e
                      \<or> (\<exists>t. transcribe E audio1 samplerate = Inr t
                            \<and> print E t (save_wav tmp_path upload w) = Inl e)))"
  shows "snd (audio_to_pdf E tmp_path upload w) = Inl e
         \<and> files (fst (audio_to_pdf E tmp_path upload w)) tmp_path = Some upload"
  using assms
  by (auto simp: audio_to_pdf_def normalize_saved files_saved Let_def)

lemma temp_file_removed:
  assumes "sf_read E upload = Inr (audio, samplerate)"
    and "ensure_mono audio = Inr audio1"
    and "transcribe E audio1 samplerate = Inr t"
    and "print E t (save_wav tmp_path upload w) = Inr w2"
  shows "files (fst (audio_to_pdf E tmp_path upload w)) tmp_path = None"
  using assms
  by (auto simp: audio_to_pdf_def normalize_saved files_removed Let_def split: sum.splits)

text \<open>
  Claim C1: the temporary file that stages the upload is removed on every exit path of
  the handler, including the path where decoding fails and the path where recognition
  fails. The code does not do that: on an empty upload, which the decoder rejects, the
  handler ends with the decoder's error and the file is still in the file system, with
  the upload in it.
\<close>

theorem temp_file_survives_decode_failure:
  "snd (audio_to_pdf test_env ''tmp.wav'' [] empty_world) = Inl (DecodeError ''no data'')
   \<and> files (fst (audio_to_pdf test_env ''tmp.wav'' [] empty_world)) ''tmp.wav'' = Some []"
  using temp_file_left_behind [of test_env "[]" "DecodeError ''no data''" "''tmp.wav''" empty_world]
  by (simp add: test_env_def)

subsection \<open>Rendering\<close>

lemma find_non_latin1:
  "find (\<lambda>c. 256 \<le> c) (s :: unicode) = Some c \<Longrightarrow> c \<in> set s \<and> 256 \<le> c"
  by (induction s) (auto split: if_splits)

lemma find_latin1_None:
  "find (\<lambda>c. 256 \<le> c) (s :: unicode) = None \<Longrightarrow> list_all (\<lambda>c. c < 256) s"
  by (induction s) (auto split: if_splits)

text \<open>
  Claim C2, as amended: the content of the text makes rendering fail exactly when a
  character outside Latin-1 (a code point of 256 or more) is on one of the laid-out
  lines: the library then raises \<^verbatim>\<open>UnicodeEncodeError\<close> for the first such character,
  and nothing replaces it by a fallback glyph. When every character of the lines is
  Latin-1, rendering fails only if the library's serialisation fails, with the library's
  error, and otherwise returns the bytes the library serialised, unchanged.
\<close>

theorem create_pdf_latin1_only:
  "create_pdf E t =
     (case find (\<lambda>c. 256 \<le> c) (concat (concat (pages (layout E t)))) of
        Some c \<Rightarrow> Inl (UnicodeEncodeError c)
      | None \<Rightarrow> serialize E (pages (layout E t)))"
  by (simp add: create_pdf_def pdf_output_def encode_latin1_bytes
      split: option.splits sum.splits)

theorem create_pdf_latin1_only_witness:
  "create_pdf test_env (ustr ''hi'') = Inr [104, 105]"
  using create_pdf_latin1_only [of test_env "ustr ''hi''"]
  by (simp add: test_env_def layout_def pdf_text_def add_page_def put_line_def pages_def
      ustr_def)

text \<open>
  Claim C2, as stated (the content of the text never makes rendering fail), is false:
  whatever the rest of the library does, a text that the line breaker leaves on one line
  is rendered when it is the letter ``a'' alone and raises \<^verbatim>\<open>UnicodeEncodeError\<close> when it
  is the euro sign (code point 8364) alone.
\<close>

theorem non_latin1_text_fails:
  "create_pdf test_env [8364] = Inl (UnicodeEncodeError 8364)
   \<and> create_pdf test_env [97] = Inr [97]"
  by (simp add: create_pdf_def pdf_output_def test_env_def layout_def pdf_text_def
      add_page_def put_line_def pages_def)

text \<open>
  Claim C4: the empty transcript is not an error and is rendered as a single page with
  the placeholder phrase. When the recogniser's result has the empty string as its text,
  or no text at all, the recognition stage returns the empty text; and provided the
  lines of the placeholder fit on one page, the document for the empty text has exactly
  one page, whose lines are those of ``No speech detected.''.
\<close>

theorem empty_transcript_single_page:
  assumes "vosk E samplerate (tobytes E audio) = Inr result"
    and "result ''text'' = None \<or> result ''text'' = Some (JStr [])"
    and "length (wrap_lines E placeholder) \<le> lines_per_page E"
  shows "transcribe E audio samplerate = Inr []
         \<and> pages (layout E []) = [wrap_lines E placeholder]"
  using assms multi_cell_fits [of add_page "wrap_lines E placeholder" "lines_per_page E"]
  by (auto simp: transcribe_def layout_def pdf_text_def pages_def add_page_def
      dict_get_def strip_def)

theorem empty_transcript_single_page_witness:
  "transcribe (test_env\<lparr>vosk := \<lambda>r b. Inr Map.empty\<rparr>) (Array1 [0, 1]) 16000 = Inr []
   \<and> pages (layout (test_env\<lparr>vosk := \<lambda>r b. Inr Map.empty\<rparr>) [])
       = [[ustr ''No speech detected.'']]"
  using empty_transcript_single_page
    [of "test_env\<lparr>vosk := \<lambda>r b. Inr Map.empty\<rparr>" 16000 "Array1 [0, 1]" Map.empty]
  by (simp add: test_env_def placeholder_def)

text \<open>
  Claim C8: when the text wraps into more lines than a page holds, the number of pages
  is the number of lines divided by the lines per page, rounded up.
\<close>

theorem page_count_is_ceiling:
  assumes "0 < lines_per_page E"
    and "lines_per_page E < length (wrap_lines E (pdf_text t))"
  shows "int (length (pages (layout E t))) =
           \<lceil>real (length (wrap_lines E (pdf_text t))) / real (lines_per_page E)\<rceil>"
proof -
  let ?n = "length (wrap_lines E (pdf_text t))"
  let ?k = "lines_per_page E"
  have "?k \<le> ?n + ?k - 1" using assms by linarith
  then have "?k div ?k \<le> (?n + ?k - 1) div ?k" by (rule div_le_mono)
  then have "1 \<le> (?n + ?k - 1) div ?k" using assms by simp
  then have "length (pages (layout E t)) = (?n + ?k - 1) div ?k"
    using page_count_layout [OF assms(1), of t] by simp
  then show ?thesis using ceiling_div_nat [OF assms(1), of ?n] by simp
qed

theorem page_count_is_ceiling_witness:
  "int (length (pages (layout (test_env\<lparr>wrap_lines := map (\<lambda>c. [c]), lines_per_page := 2\<rparr>)
          (ustr ''hello'')))) = 3"
  using page_count_is_ceiling [of "test_env\<lparr>wrap_lines := map (\<lambda>c. [c]), lines_per_page := 2\<rparr>" "ustr ''hello''"]
  by (simp add: test_env_def pdf_text_def ustr_def)

subsection \<open>Normalisation\<close>



text \<open>
  Claim C6: for a stereo input, exchanging the left and the right channel before the
  mixdown gives the same mono buffer.
\<close>

theorem stereo_mixdown_commutes:
  assumes "well_shaped (Array2 2 rows)"
  shows "ensure_mono (swap_channels (Array2 2 rows)) = ensure_mono (Array2 2 rows)"
  by (simp add: ensure_mono_def mean_swap_lr)

theorem stereo_mixdown_commutes_witness:
  "well_shaped (Array2 2 [[1, 3], [2, 4]])
   \<and> ensure_mono (Array2 2 [[3, 1], [4, 2]]) = Inr (Array1 [2, 3])
   \<and> ensure_mono (Array2 2 [[1, 3], [2, 4]]) = Inr (Array1 [2, 3])"
  using stereo_mixdown_commutes [of "[[1, 3], [2, 4]]"]
  by (simp add: ensure_mono_def mean_def)

subsection \<open>Recognition\<close>

text \<open>
  Claim C9: when the text the recogniser returns consists of whitespace only (or is
  empty), the handler's text after \<^verbatim>\<open>strip()\<close> is empty, so that the text laid out
  is the placeholder phrase, and the document is the one of the empty transcript.
\<close>

theorem whitespace_transcript_placeholder:
  assumes "vosk E samplerate (tobytes E audio) = Inr result"
    and "result ''text'' = Some (JStr s)"
    and "list_all isspace s"
  shows "transcribe E audio samplerate = Inr (strip s)
         \<and> pdf_text (strip s) = placeholder
         \<and> create_pdf E (strip s) = create_pdf E []"
  using assms by (simp add: transcribe_def dict_get_def strip_whitespace pdf_text_def)

theorem whitespace_transcript_placeholder_witness:
  "transcribe (test_env\<lparr>vosk := \<lambda>r b. Inr [''text'' \<mapsto> JStr [32, 9, 10]]\<rparr>)
       (Array1 [0, 1]) 16000 = Inr []
   \<and> pdf_text (strip [32, 9, 10]) = ustr ''No speech detected.''"
  using whitespace_transcript_placeholder
    [of "test_env\<lparr>vosk := \<lambda>r b. Inr [''text'' \<mapsto> JStr [32, 9, 10]]\<rparr>" 16000
        "Array1 [0, 1]" "[''text'' \<mapsto> JStr [32, 9, 10]]" "[32, 9, 10]"]
  by (simp add: test_env_def isspace_def strip_def placeholder_def)



subsection \<open>The outcome of the handler\<close>

text \<open>
  Claim C7: the handler either returns a complete document or ends with the error of the
  first step that failed, unchanged. An error \<open>e\<close> of the handler is the error of
  normalisation; or normalisation succeeded and \<open>e\<close> is the error of recognition; or
  both succeeded and \<open>e\<close> was raised by printing the text; or these succeeded
  and \<open>e\<close> is the error of rendering. A response is returned only when every step
  succeeded, and then its body is the whole of the bytes that the library serialised for
  all the pages of the text, with the media type and the header of a PDF attachment.
\<close>

theorem first_failure_propagates:
  "(case snd (audio_to_pdf E tmp_path upload w) of
      Inl e \<Rightarrow>
        normalize E tmp_path (save_wav tmp_path upload w) = Inl e
        \<or> (\<exists>audio samplerate.
              normalize E tmp_path (save_wav tmp_path upload w) = Inr (audio, samplerate)
              \<and> (transcribe E audio samplerate = Inl e
                   \<or> (\<exists>t. transcribe E audio samplerate = Inr t
                         \<and> (print E t (save_wav tmp_path upload w) = Inl e
                              \<or> ((\<exists>w2. print E t (save_wav tmp_path upload w) = Inr w2)
                                   \<and> create_pdf E t = Inl e)))))
    | Inr r \<Rightarrow>
        (\<exists>audio samplerate t w2 bs.
            normalize E tmp_path (save_wav tmp_path upload w) = Inr (audio, samplerate)
            \<and> transcribe E audio samplerate = Inr t
            \<and> print E t (save_wav tmp_path upload w) = Inr w2
            \<and> list_all (\<lambda>c. c < 256) (concat (concat (pages (layout E t))))
            \<and> serialize E (pages (layout E t)) = Inr bs
            \<and> body r = bs
            \<and> media_type r = ''application/pdf''
            \<and> headers r = [(''Content-Disposition'', ''attachment; filename=transcribed.pdf'')]))"
proof -
  have render: "create_pdf E t = Inr bs \<Longrightarrow>
      list_all (\<lambda>c. c < 256) (concat (concat (pages (layout E t))))
      \<and> serialize E (pages (layout E t)) = Inr bs" for t bs
    by (auto simp: create_pdf_def pdf_output_def encode_latin1_bytes
        dest: find_latin1_None split: option.splits sum.splits)
  show ?thesis
    by (auto simp: audio_to_pdf_def Let_def streaming_response_def dest!: render
        split: sum.splits prod.splits)
qed

theorem first_failure_propagates_witness:
  "audio_to_pdf test_env ''tmp.wav'' [82] empty_world =
     (\<lparr>files = Map.empty, stdout = [ustr ''hello world'']\<rparr>,
      Inr \<lparr>body = [104, 101, 108, 108, 111, 32, 119, 111, 114, 108, 100],
           media_type = ''application/pdf'',
           headers = [(''Content-Disposition'', ''attachment; filename=transcribed.pdf'')]\<rparr>)"
proof -
  have run: "audio_to_pdf test_env ''tmp.wav'' [82] empty_world =
     (\<lparr>files = Map.empty, stdout = [ustr ''hello world'']\<rparr>,
      Inr \<lparr>body = [104, 101, 108, 108, 111, 32, 119, 111, 114, 108, 100],
           media_type = ''application/pdf'',
           headers = [(''Content-Disposition'', ''attachment; filename=transcribed.pdf'')]\<rparr>)"
    by (simp add: audio_to_pdf_def normalize_def load_wav_def test_env_def ensure_mono_def
      transcribe_def dict_get_def strip_def isspace_def ustr_def create_pdf_def layout_def
      pdf_text_def add_page_def put_line_def pages_def os_remove_def print_def save_wav_def
      empty_world_def Let_def pdf_output_def streaming_response_def)
  from first_failure_propagates [of test_env "''tmp.wav''" "[82]" empty_world] run
  show ?thesis by simp
qed

end
